theory Spec2Isabelle
  imports Main
begin

section \<open>The notebook \<open>Using External Tables from BigQuery\<close>\<close>

text \<open>
  The repository's one source file is a Jupyter notebook of straight-line Python: it
  fetches a CSV over HTTP, writes it to an object in a Cloud Storage bucket, declares an
  external data source over that object, runs one query against it and deletes the
  object and the bucket.

  Every statement of the notebook is a transformer of the kernel's state that may raise.
  The calls that leave the process (\<open>urlopen\<close>, \<open>read\<close>, \<open>close\<close>, the bucket, object
  and query calls) are answered by an environment, which is a parameter: the theory fixes
  nothing about what the remote services answer. Each such call is appended, with its
  answer, to a trace held in the kernel's state.
\<close>

subsection \<open>Data model\<close>

text \<open>Python 2 \<open>str\<close>: a sequence of bytes.\<close>

type_synonym bytes = string

datatype sql_type = INTEGER | STRING | FLOAT

text \<open>One entry \<open>{'name': ..., 'type': ...}\<close> of the list given to \<open>bq.Schema\<close>.\<close>

record column =
  col_name :: string
  col_type :: sql_type

record csv_options =
  skip_leading_rows :: int

record external_data_source =
  eds_source :: string
  eds_csv_options :: csv_options
  eds_schema :: "column list"
  eds_max_bad_records :: int

record bucket =
  bucket_name :: string

record gcs_object =
  obj_bucket :: string
  obj_key :: string

record query =
  sql :: string
  data_sources :: "(string \<times> external_data_source) list"

subsection \<open>Constructors of the client library, as the notebook calls them\<close>

definition CSVOptions :: "int \<Rightarrow> csv_options" where
  "CSVOptions n = \<lparr>skip_leading_rows = n\<rparr>"

definition Schema :: "(string \<times> sql_type) list \<Rightarrow> column list" where
  "Schema entries = map (\<lambda>(n, t). \<lparr>col_name = n, col_type = t\<rparr>) entries"

definition ExternalDataSource ::
  "string \<Rightarrow> csv_options \<Rightarrow> column list \<Rightarrow> int \<Rightarrow> external_data_source" where
  "ExternalDataSource src opts sch mbr =
     \<lparr>eds_source = src, eds_csv_options = opts, eds_schema = sch, eds_max_bad_records = mbr\<rparr>"

definition Bucket :: "string \<Rightarrow> bucket" where
  "Bucket n = \<lparr>bucket_name = n\<rparr>"

definition bucket_object :: "bucket \<Rightarrow> string \<Rightarrow> gcs_object" where
  "bucket_object b key = \<lparr>obj_bucket = bucket_name b, obj_key = key\<rparr>"

text \<open>
  \<open>sample_object.uri\<close>. The notebook's recorded output of the cell \<open>drivedata\<close> shows the
  form: \<open>gs://yelsayed-project1-station_data/station_data.csv\<close>.
\<close>

definition uri :: "gcs_object \<Rightarrow> string" where
  "uri ob = ''gs://'' @ obj_bucket ob @ ''/'' @ obj_key ob"

definition Query :: "string \<Rightarrow> (string \<times> external_data_source) list \<Rightarrow> query" where
  "Query text ds = \<lparr>sql = text, data_sources = ds\<rparr>"

text \<open>The text the notebook shows for a data source (recorded output of cell \<open>drivedata\<close>).\<close>

definition repr_eds :: "external_data_source \<Rightarrow> string" where
  "repr_eds d = ''BigQuery External Datasource - paths: '' @ eds_source d"

text \<open>\<open>'%d' % n\<close> for a length.\<close>

fun decimal :: "nat \<Rightarrow> string" where
  "decimal n =
     (if n < 10 then [char_of (48 + n)]
      else decimal (n div 10) @ [char_of (48 + n mod 10)])"

declare decimal.simps [simp del]

subsection \<open>Exceptions, calls and the environment\<close>

text \<open>
  \<open>Remote e\<close> is an exception raised by a call that leaves the process; \<open>'e\<close> is whatever
  the fetch, the object store or the query service raises.
\<close>

datatype 'e exn = ImportError string | NameError string | Remote 'e

text \<open>
  One entry of the trace: the call, its arguments and the answer it got. A connection is
  a handle (\<open>nat\<close>), a query job is its identifier, \<open>'r\<close> is a result table.
\<close>

datatype ('e, 'r) event =
    EUrlOpen string "'e + nat"
  | ERead nat "'e + bytes"
  | EClose nat "'e + unit"
  | EBucketCreate string "'e + unit"
  | EWriteStream string string bytes string "'e + unit"
  | EExecute query "'e + string"
  | EResult string "'e + 'r"
  | EObjectDelete string string "'e + unit"
  | EBucketDelete string "'e + unit"

text \<open>
  The environment: which modules can be imported, the project of \<open>Context.default()\<close>,
  and the answer to each call, an error (\<open>Inl\<close>) or a value (\<open>Inr\<close>).
\<close>

record ('e, 'r) env =
  importable :: "string \<Rightarrow> bool"
  project_id :: string
  urlopen_r :: "string \<Rightarrow> 'e + nat"
  read_r :: "nat \<Rightarrow> 'e + bytes"
  close_r :: "nat \<Rightarrow> 'e + unit"
  create_r :: "string \<Rightarrow> 'e + unit"
  write_stream_r :: "string \<Rightarrow> string \<Rightarrow> bytes \<Rightarrow> string \<Rightarrow> 'e + unit"
  execute_r :: "query \<Rightarrow> 'e + string"
  result_r :: "string \<Rightarrow> 'e + 'r"
  object_delete_r :: "string \<Rightarrow> string \<Rightarrow> 'e + unit"
  bucket_delete_r :: "string \<Rightarrow> 'e + unit"

subsection \<open>The kernel's state\<close>

text \<open>
  The notebook's global variables (unbound is \<open>None\<close>), the names bound by imports, the
  text shown to the operator, and the trace of remote calls.
\<close>

record ('e, 'r) kernel =
  trace :: "('e, 'r) event list"
  shown :: "string list"
  names :: "string list"
  v_data_source :: "string option"
  v_f :: "nat option"
  v_data :: "bytes option"
  v_project :: "string option"
  v_sample_bucket_name :: "string option"
  v_sample_bucket :: "bucket option"
  v_sample_object :: "gcs_object option"
  v_options :: "csv_options option"
  v_schema :: "column list option"
  v_drivedata :: "external_data_source option"
  v_Out :: "'r option"

definition init_kernel :: "('e, 'r) kernel" where
  "init_kernel =
     \<lparr>trace = [], shown = [], names = [], v_data_source = None, v_f = None, v_data = None,
      v_project = None, v_sample_bucket_name = None, v_sample_bucket = None,
      v_sample_object = None, v_options = None, v_schema = None, v_drivedata = None,
      v_Out = None\<rparr>"

type_synonym ('e, 'r) stmt = "('e, 'r) kernel \<Rightarrow> 'e exn option \<times> ('e, 'r) kernel"

text \<open>An assignment or another step that cannot raise.\<close>

definition assign :: "(('e, 'r) kernel \<Rightarrow> ('e, 'r) kernel) \<Rightarrow> ('e, 'r) stmt" where
  "assign f k = (None, f k)"

text \<open>Reading a variable: \<open>NameError\<close> when it is unbound.\<close>

definition rd ::
  "(('e, 'r) kernel \<Rightarrow> 'a option) \<Rightarrow> string \<Rightarrow> ('a \<Rightarrow> ('e, 'r) stmt) \<Rightarrow> ('e, 'r) stmt" where
  "rd var nm body k =
     (case var k of None \<Rightarrow> (Some (NameError nm), k) | Some v \<Rightarrow> body v k)"

text \<open>Using a name bound by an import.\<close>

definition need :: "string \<Rightarrow> ('e, 'r) stmt \<Rightarrow> ('e, 'r) stmt" where
  "need nm body k = (if nm \<in> set (names k) then body k else (Some (NameError nm), k))"

text \<open>
  A call that leaves the process: it is logged with its answer; an error answer is raised
  as it is, a value is handed to the rest of the statement.
\<close>

definition call ::
  "(('e + 'a) \<Rightarrow> ('e, 'r) event) \<Rightarrow> 'e + 'a \<Rightarrow> ('a \<Rightarrow> ('e, 'r) stmt) \<Rightarrow> ('e, 'r) stmt" where
  "call mk r body k =
     (let k' = k\<lparr>trace := trace k @ [mk r]\<rparr>
      in case r of Inl e \<Rightarrow> (Some (Remote e), k') | Inr v \<Rightarrow> body v k')"

text \<open>\<open>from m import nm\<close> and \<open>import m as nm\<close>.\<close>

definition import_name :: "('e, 'r) env \<Rightarrow> string \<Rightarrow> string \<Rightarrow> ('e, 'r) stmt" where
  "import_name env m nm k =
     (if importable env m then (None, k\<lparr>names := names k @ [nm]\<rparr>)
      else (Some (ImportError m), k))"

text \<open>\<open>try: body except ImportError: handler\<close>.\<close>

definition try_except_ImportError :: "('e, 'r) stmt \<Rightarrow> ('e, 'r) stmt \<Rightarrow> ('e, 'r) stmt" where
  "try_except_ImportError body handler k =
     (case body k of
        (Some (ImportError m), k') \<Rightarrow> handler k'
      | res \<Rightarrow> res)"

text \<open>
  A sequence of statements stops at the first one that raises. It runs the statements of
  a cell, and the cells of the notebook.
\<close>

fun exec :: "('e, 'r) stmt list \<Rightarrow> ('e, 'r) stmt" where
  "exec [] k = (None, k)"
| "exec (s # ss) k =
     (case s k of (None, k') \<Rightarrow> exec ss k' | (Some e, k') \<Rightarrow> (Some e, k'))"

subsection \<open>The cells\<close>

text \<open>
  \<^verbatim>\<open>
  from google.datalab import Context
  import google.datalab.bigquery as bq
  import google.datalab.storage as gs
  \<close>
\<close>

definition cell_imports :: "('e, 'r) env \<Rightarrow> ('e, 'r) stmt" where
  "cell_imports env = exec
     [import_name env ''google.datalab'' ''Context'',
      import_name env ''google.datalab.bigquery'' ''bq'',
      import_name env ''google.datalab.storage'' ''gs'']"

text \<open>
  \<^verbatim>\<open>
  try:
    from urllib2 import urlopen
  except ImportError:
    from urllib.request import urlopen
  data_source = "https://storage.googleapis.com/cloud-datalab-samples/udfsample/2015_station_data.csv"

  f = urlopen(data_source)
  data = f.read()
  f.close()

  print('Read %d bytes' % len(data))
  \<close>
\<close>

definition data_source_url :: string where
  "data_source_url =
     ''https://storage.googleapis.com/cloud-datalab-samples/udfsample/2015_station_data.csv''"

definition cell_fetch :: "('e, 'r) env \<Rightarrow> ('e, 'r) stmt" where
  "cell_fetch env = exec
     [try_except_ImportError
        (import_name env ''urllib2'' ''urlopen'')
        (import_name env ''urllib.request'' ''urlopen''),
      assign (\<lambda>k. k\<lparr>v_data_source := Some data_source_url\<rparr>),
      need ''urlopen'' (rd v_data_source ''data_source'' (\<lambda>u.
        call (EUrlOpen u) (urlopen_r env u) (\<lambda>h. assign (\<lambda>k. k\<lparr>v_f := Some h\<rparr>)))),
      rd v_f ''f'' (\<lambda>h.
        call (ERead h) (read_r env h) (\<lambda>d. assign (\<lambda>k. k\<lparr>v_data := Some d\<rparr>))),
      rd v_f ''f'' (\<lambda>h.
        call (EClose h) (close_r env h) (\<lambda>_. assign (\<lambda>k. k))),
      rd v_data ''data'' (\<lambda>d.
        assign (\<lambda>k. k\<lparr>shown := shown k @ [''Read '' @ decimal (length d) @ '' bytes'']\<rparr>))]"

text \<open>
  \<^verbatim>\<open>
  project = Context.default().project_id
  sample_bucket_name = project + '-station_data'

  sample_bucket = gs.Bucket(sample_bucket_name)
  sample_bucket.create()
  sample_object = sample_bucket.object('station_data.csv')
  sample_object.write_stream(data, 'text/plain')
  \<close>
\<close>

definition cell_store :: "('e, 'r) env \<Rightarrow> ('e, 'r) stmt" where
  "cell_store env = exec
     [need ''Context'' (assign (\<lambda>k. k\<lparr>v_project := Some (project_id env)\<rparr>)),
      rd v_project ''project'' (\<lambda>p.
        assign (\<lambda>k. k\<lparr>v_sample_bucket_name := Some (p @ ''-station_data'')\<rparr>)),
      need ''gs'' (rd v_sample_bucket_name ''sample_bucket_name'' (\<lambda>n.
        assign (\<lambda>k. k\<lparr>v_sample_bucket := Some (Bucket n)\<rparr>))),
      rd v_sample_bucket ''sample_bucket'' (\<lambda>b.
        call (EBucketCreate (bucket_name b)) (create_r env (bucket_name b))
          (\<lambda>_. assign (\<lambda>k. k))),
      rd v_sample_bucket ''sample_bucket'' (\<lambda>b.
        assign (\<lambda>k. k\<lparr>v_sample_object := Some (bucket_object b ''station_data.csv'')\<rparr>)),
      rd v_sample_object ''sample_object'' (\<lambda>ob. rd v_data ''data'' (\<lambda>d.
        call (EWriteStream (obj_bucket ob) (obj_key ob) d ''text/plain'')
          (write_stream_r env (obj_bucket ob) (obj_key ob) d ''text/plain'')
          (\<lambda>_. assign (\<lambda>k. k))))]"

text \<open>
  \<^verbatim>\<open>
  options = bq.CSVOptions(skip_leading_rows=1) # Skip the header row

  schema = bq.Schema([
    {'name': 'id', 'type': 'INTEGER'},         # row ID
    {'name': 'name', 'type': 'STRING'},        # friendly name
    {'name': 'terminal', 'type': 'STRING'},    # terminal ID
    {'name': 'lat', 'type': 'FLOAT'},          # latitude
    {'name': 'long', 'type': 'FLOAT'},         # longitude
    {'name': 'dockcount', 'type': 'INTEGER'},  # bike capacity
    {'name': 'online', 'type': 'STRING'}       # date station opened
  ])

  drivedata = bq.ExternalDataSource(source=sample_object.uri, # The gs:// URL of the file
                                    csv_options=options,
                                    schema=schema,
                                    max_bad_records=10)
  \<close>
\<close>

definition options :: csv_options where
  "options = CSVOptions 1"

definition schema :: "column list" where
  "schema = Schema
     [(''id'', INTEGER),
      (''name'', STRING),
      (''terminal'', STRING),
      (''lat'', FLOAT),
      (''long'', FLOAT),
      (''dockcount'', INTEGER),
      (''online'', STRING)]"

definition cell_declare :: "('e, 'r) stmt" where
  "cell_declare = exec
     [need ''bq'' (assign (\<lambda>k. k\<lparr>v_options := Some options\<rparr>)),
      need ''bq'' (assign (\<lambda>k. k\<lparr>v_schema := Some schema\<rparr>)),
      need ''bq'' (rd v_sample_object ''sample_object'' (\<lambda>ob.
        rd v_options ''options'' (\<lambda>opts. rd v_schema ''schema'' (\<lambda>sch.
          assign (\<lambda>k. k\<lparr>v_drivedata := Some (ExternalDataSource (uri ob) opts sch 10)\<rparr>)))))]"

text \<open>\<^verbatim>\<open>drivedata\<close>: the cell shows the value.\<close>

definition cell_show :: "('e, 'r) stmt" where
  "cell_show = exec
     [rd v_drivedata ''drivedata'' (\<lambda>d. assign (\<lambda>k. k\<lparr>shown := shown k @ [repr_eds d]\<rparr>))]"

text \<open>
  \<^verbatim>\<open>
  bq.Query('SELECT * FROM drivedatasource LIMIT 5',
           data_sources={'drivedatasource': drivedata}).execute().result()
  \<close>
  \<open>execute\<close> submits the job and waits for it, \<open>result\<close> fetches its table, which the cell
  shows (\<open>Out\<close>).
\<close>

definition query_text :: string where
  "query_text = ''SELECT * FROM drivedatasource LIMIT 5''"

definition cell_query :: "('e, 'r) env \<Rightarrow> ('e, 'r) stmt" where
  "cell_query env = exec
     [need ''bq'' (rd v_drivedata ''drivedata'' (\<lambda>d.
        call (EExecute (Query query_text [(''drivedatasource'', d)]))
          (execute_r env (Query query_text [(''drivedatasource'', d)]))
          (\<lambda>job. call (EResult job) (result_r env job)
            (\<lambda>t. assign (\<lambda>k. k\<lparr>v_Out := Some t\<rparr>)))))]"

text \<open>
  \<^verbatim>\<open>
  sample_object.delete()
  sample_bucket.delete()
  \<close>
\<close>

definition cell_cleanup :: "('e, 'r) env \<Rightarrow> ('e, 'r) stmt" where
  "cell_cleanup env = exec
     [rd v_sample_object ''sample_object'' (\<lambda>ob.
        call (EObjectDelete (obj_bucket ob) (obj_key ob))
          (object_delete_r env (obj_bucket ob) (obj_key ob)) (\<lambda>_. assign (\<lambda>k. k))),
      rd v_sample_bucket ''sample_bucket'' (\<lambda>b.
        call (EBucketDelete (bucket_name b)) (bucket_delete_r env (bucket_name b))
          (\<lambda>_. assign (\<lambda>k. k)))]"

text \<open>
  The notebook, its cells run top to bottom; a cell that raises stops the run. \<open>run_all\<close>
  starts from a fresh kernel.
\<close>

definition notebook :: "('e, 'r) env \<Rightarrow> ('e, 'r) stmt" where
  "notebook env = exec
     [cell_imports env, cell_fetch env, cell_store env, cell_declare, cell_show,
      cell_query env, cell_cleanup env]"

definition run_all :: "('e, 'r) env \<Rightarrow> 'e exn option \<times> ('e, 'r) kernel" where
  "run_all env = notebook env init_kernel"

subsection \<open>Reading a trace\<close>

text \<open>The error a call was answered with, if it was.\<close>

definition answer_error :: "'e + 'a \<Rightarrow> 'e option" where
  "answer_error r = (case r of Inl e \<Rightarrow> Some e | Inr _ \<Rightarrow> None)"

fun event_error :: "('e, 'r) event \<Rightarrow> 'e option" where
  "event_error (EUrlOpen u r) = answer_error r"
| "event_error (ERead h r) = answer_error r"
| "event_error (EClose h r) = answer_error r"
| "event_error (EBucketCreate b r) = answer_error r"
| "event_error (EWriteStream b key d ct r) = answer_error r"
| "event_error (EExecute q r) = answer_error r"
| "event_error (EResult job r) = answer_error r"
| "event_error (EObjectDelete b key r) = answer_error r"
| "event_error (EBucketDelete b r) = answer_error r"

fun is_query :: "('e, 'r) event \<Rightarrow> bool" where
  "is_query (EExecute q r) = True"
| "is_query (EResult job r) = True"
| "is_query _ = False"

fun is_delete :: "('e, 'r) event \<Rightarrow> bool" where
  "is_delete (EObjectDelete b key r) = True"
| "is_delete (EBucketDelete b r) = True"
| "is_delete _ = False"

text \<open>A write that returned and left an object at the location \<open>u\<close>.\<close>

fun wrote :: "string \<Rightarrow> ('e, 'r) event \<Rightarrow> bool" where
  "wrote u (EWriteStream b key d ct (Inr _)) = (uri \<lparr>obj_bucket = b, obj_key = key\<rparr> = u)"
| "wrote u _ = False"

text \<open>The query step has returned once \<open>result\<close> has handed back a table.\<close>

fun query_returned :: "('e, 'r) event \<Rightarrow> bool" where
  "query_returned (EResult job (Inr t)) = True"
| "query_returned _ = False"

text \<open>
  Every delete call of a trace comes after a returned query; \<open>seen\<close> says whether one
  came before the trace.
\<close>

fun deletes_follow_query :: "bool \<Rightarrow> ('e, 'r) event list \<Rightarrow> bool" where
  "deletes_follow_query seen [] = True"
| "deletes_follow_query seen (ev # tr) =
     ((is_delete ev \<longrightarrow> seen) \<and> deletes_follow_query (seen \<or> query_returned ev) tr)"

text \<open>
  The notebook called \<open>close\<close> on the connection \<open>h\<close>. This reads the notebook's own calls
  only, whatever the call was answered: what the HTTP library does to the socket by
  itself, for instance while a read fails, is not in the trace.
\<close>

fun closes :: "nat \<Rightarrow> ('e, 'r) event \<Rightarrow> bool" where
  "closes h (EClose h' r) = (h' = h)"
| "closes h _ = False"

definition close_called :: "('e, 'r) event list \<Rightarrow> nat \<Rightarrow> bool" where
  "close_called tr h = list_ex (closes h) tr"

subsection \<open>The object store, as far as the trace determines it\<close>

text \<open>
  The object store is a remote service and no code of this repository. Its state is read
  off the trace under the service's contract: a call that returned did what it is named
  for, a call that raised changed nothing. A bucket maps object names to a buffer and its
  content type.
\<close>

type_synonym gcs = "string \<rightharpoonup> (string \<rightharpoonup> bytes \<times> string)"

fun gcs_apply :: "gcs \<Rightarrow> ('e, 'r) event \<Rightarrow> gcs" where
  "gcs_apply s (EBucketCreate b (Inr _)) =
     (case s b of None \<Rightarrow> s(b \<mapsto> Map.empty) | Some _ \<Rightarrow> s)"
| "gcs_apply s (EWriteStream b key d ct (Inr _)) =
     (case s b of None \<Rightarrow> s | Some obs \<Rightarrow> s(b \<mapsto> obs(key \<mapsto> (d, ct))))"
| "gcs_apply s (EObjectDelete b key (Inr _)) =
     (case s b of None \<Rightarrow> s | Some obs \<Rightarrow> s(b \<mapsto> obs(key := None)))"
| "gcs_apply s (EBucketDelete b (Inr _)) = s(b := None)"
| "gcs_apply s _ = s"

definition gcs_after :: "gcs \<Rightarrow> ('e, 'r) event list \<Rightarrow> gcs" where
  "gcs_after s tr = foldl gcs_apply s tr"

text \<open>Reading an object back: its buffer, if the bucket and the object exist.\<close>

definition gcs_read :: "gcs \<Rightarrow> string \<Rightarrow> string \<Rightarrow> bytes option" where
  "gcs_read s b key =
     (case s b of None \<Rightarrow> None | Some obs \<Rightarrow> map_option fst (obs key))"

subsection \<open>Reading SQL text and CSV lines\<close>

text \<open>Python's \<open>text.split(c)\<close>.\<close>

fun split_on :: "char \<Rightarrow> string \<Rightarrow> string list" where
  "split_on c [] = [[]]"
| "split_on c (x # xs) =
     (if x = c then [] # split_on c xs
      else (case split_on c xs of [] \<Rightarrow> [[x]] | w # ws \<Rightarrow> (x # w) # ws))"

text \<open>The table names of a statement: the word after each \<open>FROM\<close> or \<open>JOIN\<close>.\<close>

fun table_refs :: "string list \<Rightarrow> string list" where
  "table_refs (w # t # ws) =
     (if w = ''FROM'' \<or> w = ''JOIN'' then t # table_refs ws else table_refs (t # ws))"
| "table_refs _ = []"

definition sql_tables :: "string \<Rightarrow> string list" where
  "sql_tables text = table_refs (split_on CHR '' '' text)"

text \<open>
  The records of a CSV text: its non-empty lines, each split at the commas (quoting is
  not interpreted).
\<close>

definition csv_rows :: "bytes \<Rightarrow> string list list" where
  "csv_rows text = map (split_on CHR '','') (filter (\<lambda>l. l \<noteq> []) (split_on (CHR 0x0A) text))"

subsection \<open>Environments used as concrete inputs\<close>

text \<open>
  The header line and the first record of the station file, in the form the
  specification's scenario gives them; the notebook's recorded result shows the same
  column names and the same values.
\<close>

definition sample_csv :: bytes where
  "sample_csv =
     ''id,name,terminal,lat,long,dockcount,online'' @ [CHR 0x0A] @
     ''4,2nd Ave & Blanchard St,BT-05,47.61311,-122.344208,14,10/13/2014'' @ [CHR 0x0A]"

text \<open>
  The result the notebook records for its query (the cell's output): the column list and
  the five rows, each cell as it is printed.
\<close>

definition recorded_fields :: string where
  "recorded_fields = ''id,name,terminal,lat,long,dockcount,online''"

definition recorded_rows :: "string list list" where
  "recorded_rows =
     [[''4'', ''2nd Ave & Blanchard St'', ''BT-05'', ''47.61311'', ''-122.344208'', ''14'',
       ''10/13/2014''],
      [''3'', ''6th Ave & Blanchard St'', ''BT-04'', ''47.616094'', ''-122.341102'', ''16'',
       ''10/13/2014''],
      [''2'', ''2nd Ave & Vine St'', ''BT-03'', ''47.615829'', ''-122.348564'', ''16'',
       ''10/13/2014''],
      [''1'', ''3rd Ave & Broad St'', ''BT-01'', ''47.618418'', ''-122.350964'', ''18'',
       ''10/13/2014''],
      [''5'', ''2nd Ave & Pine St'', ''CBD-13'', ''47.610185'', ''-122.339641'', ''18'',
       ''10/13/2014'']]"

text \<open>Every call returns; the project and the answers are those of the recorded run.\<close>

definition env_ok :: "(string, string list list) env" where
  "env_ok =
     \<lparr>importable = (\<lambda>m. True),
      project_id = ''yelsayed-project1'',
      urlopen_r = (\<lambda>u. Inr 3),
      read_r = (\<lambda>h. Inr sample_csv),
      close_r = (\<lambda>h. Inr ()),
      create_r = (\<lambda>b. Inr ()),
      write_stream_r = (\<lambda>b key d ct. Inr ()),
      execute_r = (\<lambda>q. Inr ''job_K_B1UXklE05N5hkcN2SINo33tBg''),
      result_r = (\<lambda>job. Inr recorded_rows),
      object_delete_r = (\<lambda>b key. Inr ()),
      bucket_delete_r = (\<lambda>b. Inr ())\<rparr>"

text \<open>The connection opens and the read of the body fails.\<close>

definition env_read_fails :: "(string, string list list) env" where
  "env_read_fails = env_ok\<lparr>read_r := (\<lambda>h. Inl ''connection reset'')\<rparr>"

text \<open>Everything up to the query returns and the query job fails.\<close>

definition env_query_fails :: "(string, string list list) env" where
  "env_query_fails = env_ok\<lparr>result_r := (\<lambda>job. Inl ''invalidQuery'')\<rparr>"

section \<open>Properties\<close>

subsection \<open>Symbolic execution\<close>

lemmas cells =
  cell_imports_def cell_fetch_def cell_store_def cell_declare_def cell_show_def
  cell_query_def cell_cleanup_def notebook_def run_all_def

lemmas prims = assign_def rd_def need_def call_def import_name_def init_kernel_def

text \<open>The \<open>try\<close> statement binds \<open>urlopen\<close> when either module can be imported.\<close>

lemma try_import_urlopen:
  "try_except_ImportError (import_name env m1 nm) (import_name env m2 nm) k =
     (if importable env m1 \<or> importable env m2 then (None, k\<lparr>names := names k @ [nm]\<rparr>)
      else (Some (ImportError m2), k))"
  by (simp add: try_except_ImportError_def import_name_def)

text \<open>The runs in the concrete environments.\<close>

lemma run_env_ok:
  "fst (run_all env_ok) = None"
  "trace (snd (run_all env_ok)) =
     [EUrlOpen data_source_url (Inr 3), ERead 3 (Inr sample_csv), EClose 3 (Inr ()),
      EBucketCreate ''yelsayed-project1-station_data'' (Inr ()),
      EWriteStream ''yelsayed-project1-station_data'' ''station_data.csv'' sample_csv
        ''text/plain'' (Inr ()),
      EExecute (Query query_text [(''drivedatasource'',
         ExternalDataSource ''gs://yelsayed-project1-station_data/station_data.csv''
           options schema 10)])
        (Inr ''job_K_B1UXklE05N5hkcN2SINo33tBg''),
      EResult ''job_K_B1UXklE05N5hkcN2SINo33tBg'' (Inr recorded_rows),
      EObjectDelete ''yelsayed-project1-station_data'' ''station_data.csv'' (Inr ()),
      EBucketDelete ''yelsayed-project1-station_data'' (Inr ())]"
  by (simp_all add: cells prims try_import_urlopen env_ok_def Let_def Bucket_def
        bucket_object_def uri_def)

lemma run_env_query_fails:
  "fst (run_all env_query_fails) = Some (Remote ''invalidQuery'')"
  "trace (snd (run_all env_query_fails)) =
     [EUrlOpen data_source_url (Inr 3), ERead 3 (Inr sample_csv), EClose 3 (Inr ()),
      EBucketCreate ''yelsayed-project1-station_data'' (Inr ()),
      EWriteStream ''yelsayed-project1-station_data'' ''station_data.csv'' sample_csv
        ''text/plain'' (Inr ()),
      EExecute (Query query_text [(''drivedatasource'',
         ExternalDataSource ''gs://yelsayed-project1-station_data/station_data.csv''
           options schema 10)])
        (Inr ''job_K_B1UXklE05N5hkcN2SINo33tBg''),
      EResult ''job_K_B1UXklE05N5hkcN2SINo33tBg'' (Inl ''invalidQuery'')]"
  "v_data (snd (run_all env_query_fails)) = Some sample_csv"
  by (simp_all add: cells prims try_import_urlopen env_ok_def env_query_fails_def Let_def
        Bucket_def bucket_object_def uri_def)

lemma fetch_env_ok:
  "cell_fetch env_ok init_kernel =
     (None,
      init_kernel\<lparr>names := [''urlopen''], v_data_source := Some data_source_url,
         v_f := Some 3, v_data := Some sample_csv,
         shown := [''Read '' @ decimal (length sample_csv) @ '' bytes''],
         trace := [EUrlOpen data_source_url (Inr 3), ERead 3 (Inr sample_csv),
                   EClose 3 (Inr ())]\<rparr>)"
  by (simp add: cells prims try_import_urlopen env_ok_def Let_def)

lemma fetch_env_read_fails:
  "cell_fetch env_read_fails init_kernel =
     (Some (Remote ''connection reset''),
      init_kernel\<lparr>names := [''urlopen''], v_data_source := Some data_source_url,
         v_f := Some 3,
         trace := [EUrlOpen data_source_url (Inr 3), ERead 3 (Inl ''connection reset'')]\<rparr>)"
  by (simp add: cells prims try_import_urlopen env_ok_def env_read_fails_def Let_def)

lemma imports_env_ok:
  "cell_imports env_ok init_kernel = (None, init_kernel\<lparr>names := [''Context'', ''bq'', ''gs'']\<rparr>)"
  by (simp add: cells prims env_ok_def)

subsection \<open>Fetch and store\<close>

text \<open>
  C2. Round trip. Whatever buffer the fetch returns, when the fetch cell and the store
  cell both complete, the buffer the read of the URL returned is the buffer bound to
  \<open>data\<close>, it is the buffer handed to \<open>write_stream\<close> (with content type \<open>text/plain\<close>, as
  the last call of the store cell), and reading the stored object back gives that same
  buffer: the store step changes nothing in it. The store before the run (\<open>st\<close>) and the
  kernel the cells start in are arbitrary.
\<close>

theorem store_round_trip:
  assumes "cell_fetch env k0 = (None, k1)" and "cell_store env k1 = (None, k2)"
  shows "\<exists>h d. urlopen_r env data_source_url = Inr h \<and> read_r env h = Inr d \<and>
           v_data k1 = Some d \<and>
           last (trace k2) =
             EWriteStream (project_id env @ ''-station_data'') ''station_data.csv'' d
               ''text/plain'' (Inr ()) \<and>
           gcs_read (gcs_after st (trace k2)) (project_id env @ ''-station_data'')
             ''station_data.csv'' = Some d"
  using assms
  by (auto simp add: cells prims try_import_urlopen Let_def Bucket_def bucket_object_def
        gcs_after_def gcs_read_def split: sum.splits option.splits if_splits)

theorem store_round_trip_witness:
  "gcs_read
     (gcs_after Map.empty
        (trace (snd (cell_store env_ok
           (snd (cell_fetch env_ok (snd (cell_imports env_ok init_kernel))))))))
     ''yelsayed-project1-station_data'' ''station_data.csv'' = Some sample_csv"
proof -
  let ?k0 = "snd (cell_imports env_ok init_kernel)"
  let ?k1 = "snd (cell_fetch env_ok ?k0)"
  let ?k2 = "snd (cell_store env_ok ?k1)"
  have "fst (cell_fetch env_ok ?k0) = None"
    by (simp add: imports_env_ok) (simp add: cells prims try_import_urlopen env_ok_def Let_def)
  then have fetched: "cell_fetch env_ok ?k0 = (None, ?k1)"
    by (simp add: prod_eq_iff)
  have "fst (cell_store env_ok ?k1) = None"
    by (simp add: imports_env_ok)
       (simp add: cells prims try_import_urlopen env_ok_def Let_def Bucket_def
          bucket_object_def)
  then have stored: "cell_store env_ok ?k1 = (None, ?k2)"
    by (simp add: prod_eq_iff)
  from store_round_trip [OF fetched stored, of Map.empty]
  obtain h d where rd: "read_r env_ok h = Inr d"
    and same: "gcs_read (gcs_after Map.empty (trace ?k2))
        (project_id env_ok @ ''-station_data'') ''station_data.csv'' = Some d"
    by blast
  from rd have "d = sample_csv"
    by (simp add: env_ok_def)
  moreover have "project_id env_ok @ ''-station_data'' = ''yelsayed-project1-station_data''"
    by (simp add: env_ok_def)
  ultimately show ?thesis
    using same by simp
qed

text \<open>
  C3, as the notebook has it. The fetch is \<open>f = urlopen(..); data = f.read(); f.close()\<close>
  with no \<open>with\<close> block and no \<open>finally\<close>. In a fetch cell started with an empty trace,
  when the read of the body returns: the calls of the cell are the open, the read and then
  the close of that connection, so the notebook closes the connection right after the body
  is read; and the cell completes when \<open>close\<close> returns and raises the error of \<open>close\<close>
  when \<open>close\<close> itself fails. Nothing is stated for a read that fails.
\<close>

theorem fetch_closes_after_successful_read:
  assumes "trace k = []" and "cell_fetch env k = (r, k')"
    and "ERead h (Inr d) \<in> set (trace k')"
  shows "trace k' =
           [EUrlOpen data_source_url (Inr h), ERead h (Inr d), EClose h (close_r env h)] \<and>
         close_called (trace k') h \<and>
         r = map_option Remote (answer_error (close_r env h))"
  using assms
  by (auto simp add: cells prims try_import_urlopen Let_def close_called_def answer_error_def
        split: sum.splits option.splits if_splits)

theorem fetch_closes_after_successful_read_witness:
  "ERead 3 (Inr sample_csv) \<in> set (trace (snd (cell_fetch env_ok init_kernel))) \<and>
   trace (snd (cell_fetch env_ok init_kernel)) =
     [EUrlOpen data_source_url (Inr 3), ERead 3 (Inr sample_csv), EClose 3 (Inr ())] \<and>
   close_called (trace (snd (cell_fetch env_ok init_kernel))) 3 \<and>
   fst (cell_fetch env_ok init_kernel) = None"
proof -
  have fresh: "trace (init_kernel :: (string, string list list) kernel) = []"
    by (simp add: init_kernel_def)
  have run: "cell_fetch env_ok init_kernel = (fst (cell_fetch env_ok init_kernel),
      snd (cell_fetch env_ok init_kernel))"
    by simp
  have was_read: "ERead 3 (Inr sample_csv) \<in> set (trace (snd (cell_fetch env_ok init_kernel)))"
    by (simp add: fetch_env_ok)
  have closed: "close_r env_ok 3 = Inr ()"
    by (simp add: env_ok_def)
  have completes: "map_option Remote (answer_error (Inr () :: string + unit)) = None"
    by (simp add: answer_error_def)
  from fetch_closes_after_successful_read [OF fresh run was_read]
  have "trace (snd (cell_fetch env_ok init_kernel)) =
      [EUrlOpen data_source_url (Inr 3), ERead 3 (Inr sample_csv), EClose 3 (Inr ())] \<and>
    close_called (trace (snd (cell_fetch env_ok init_kernel))) 3 \<and>
    fst (cell_fetch env_ok init_kernel) = None"
    unfolding closed completes by blast
  with was_read show ?thesis
    by blast
qed

text \<open>
  The claim as the specification states it (the close is guaranteed even when the read
  fails) does not hold of the notebook: here the connection opens, the read of the body
  fails, and the cell raises the read's error after these two calls, without calling
  \<open>close\<close> on the connection it opened.
\<close>

theorem fetch_release_counterexample:
  "fst (cell_fetch env_read_fails init_kernel) = Some (Remote ''connection reset'') \<and>
   trace (snd (cell_fetch env_read_fails init_kernel)) =
     [EUrlOpen data_source_url (Inr 3), ERead 3 (Inl ''connection reset'')] \<and>
   \<not> close_called (trace (snd (cell_fetch env_read_fails init_kernel))) 3"
  by (simp add: fetch_env_read_fails close_called_def)

subsection \<open>The schema and the columns of the file\<close>

text \<open>
  C6. The schema the notebook declares has seven columns, named \<open>id\<close>, \<open>name\<close>,
  \<open>terminal\<close>, \<open>lat\<close>, \<open>long\<close>, \<open>dockcount\<close>, \<open>online\<close> in this order, and one leading
  row is skipped. These are the columns of the file, left to right: the header line of
  the file carries the same names in the same order, every row after the one skipped
  line has as many fields as the schema has columns, and the recorded result of the
  notebook's query lists the same columns and has seven cells in every row.
\<close>

theorem schema_matches_csv_columns:
  "map col_name schema =
     [''id'', ''name'', ''terminal'', ''lat'', ''long'', ''dockcount'', ''online''] \<and>
   length schema = 7 \<and>
   distinct (map col_name schema) \<and>
   skip_leading_rows options = 1 \<and>
   hd (csv_rows sample_csv) = map col_name schema \<and>
   map length (drop (nat (skip_leading_rows options)) (csv_rows sample_csv)) = [length schema] \<and>
   split_on CHR '','' recorded_fields = map col_name schema \<and>
   map length recorded_rows = [7, 7, 7, 7, 7]"
  by (simp add: schema_def Schema_def options_def CSVOptions_def recorded_fields_def
        recorded_rows_def csv_rows_def sample_csv_def)

subsection \<open>The declared data source\<close>

text \<open>The declaring cell makes no call that leaves the process and shows nothing.\<close>

lemma cell_declare_no_io:
  "trace (snd (cell_declare k)) = trace k"
  "shown (snd (cell_declare k)) = shown k"
  by (simp_all add: cells prims split: option.split)

text \<open>No cell after the declaring one assigns to \<open>drivedata\<close>.\<close>

lemma later_cells_keep_drivedata:
  "v_drivedata (snd (cell_show k)) = v_drivedata k"
  "v_drivedata (snd (cell_query env k)) = v_drivedata k"
  "v_drivedata (snd (cell_cleanup env k)) = v_drivedata k"
  "v_drivedata (snd (exec [cell_show, cell_query env, cell_cleanup env] k)) = v_drivedata k"
  by (simp_all add: cells prims Let_def split: sum.split option.split)

text \<open>The query cell submits the data source as it finds it in \<open>drivedata\<close>.\<close>

lemma cell_query_passes_drivedata:
  "v_drivedata k = Some d \<Longrightarrow> EExecute q a \<in> set (trace (snd (cell_query env k))) \<Longrightarrow>
     EExecute q a \<in> set (trace k) \<or> data_sources q = [(''drivedatasource'', d)]"
  by (auto simp add: cells prims Let_def Query_def split: sum.splits if_splits)

subsection \<open>Failures\<close>

text \<open>
  C8. Errors pass through. In every run of the notebook, whatever the services answer:
  every call but the last returned normally, and the run raises the remote error \<open>e\<close>
  exactly when its last call was answered with the error \<open>e\<close>. So a failing fetch, bucket,
  object, query or delete call ends the run at that call (nothing is called again, nothing
  is run after it), and what the operator sees is the error of that call itself.
\<close>

theorem errors_pass_through:
  "case run_all env of (r, k) \<Rightarrow>
     (\<forall>ev \<in> set (butlast (trace k)). event_error ev = None) \<and>
     (\<forall>e. r = Some (Remote e) \<longleftrightarrow> trace k \<noteq> [] \<and> event_error (last (trace k)) = Some e)"
  by (simp add: cells prims try_import_urlopen Let_def Bucket_def bucket_object_def
        answer_error_def split: sum.split)

theorem errors_pass_through_witness:
  "event_error (last (trace (snd (run_all env_query_fails)))) = Some ''invalidQuery'' \<and>
   fst (run_all env_query_fails) = Some (Remote ''invalidQuery'') \<and>
   list_all (\<lambda>ev. event_error ev = None) (butlast (trace (snd (run_all env_query_fails))))"
proof -
  have last_failed: "trace (snd (run_all env_query_fails)) \<noteq> [] \<and>
      event_error (last (trace (snd (run_all env_query_fails)))) = Some ''invalidQuery''"
    by (simp add: run_env_query_fails answer_error_def)
  from errors_pass_through [of env_query_fails]
  have all: "\<forall>ev \<in> set (butlast (trace (snd (run_all env_query_fails)))). event_error ev = None"
    and iff: "\<And>e. fst (run_all env_query_fails) = Some (Remote e) \<longleftrightarrow>
        trace (snd (run_all env_query_fails)) \<noteq> [] \<and>
        event_error (last (trace (snd (run_all env_query_fails)))) = Some e"
    by (simp_all add: case_prod_beta)
  from all have "list_all (\<lambda>ev. event_error ev = None)
      (butlast (trace (snd (run_all env_query_fails))))"
    by (simp add: list_all_iff)
  with last_failed iff show ?thesis
    by simp
qed

text \<open>
  C9. No cleanup after a failed query. In every run of the notebook: each delete call
  comes after the query step has returned its table; and when a call of the query step
  (\<open>execute\<close> or \<open>result\<close>) fails, the run raises, the trace holds no delete call, and the
  bucket and the object are still in the store, the object holding the fetched buffer.
  The store before the run (\<open>st\<close>) is arbitrary.
\<close>

theorem no_cleanup_after_failed_query:
  "case run_all env of (r, k) \<Rightarrow>
     deletes_follow_query False (trace k) \<and>
     ((\<exists>ev \<in> set (trace k). is_query ev \<and> event_error ev \<noteq> None) \<longrightarrow>
        r \<noteq> None \<and>
        (\<forall>ev \<in> set (trace k). \<not> is_delete ev) \<and>
        v_data k \<noteq> None \<and>
        gcs_after st (trace k) (project_id env @ ''-station_data'') \<noteq> None \<and>
        gcs_read (gcs_after st (trace k)) (project_id env @ ''-station_data'')
          ''station_data.csv'' = v_data k)"
  by (simp add: cells prims try_import_urlopen Let_def Bucket_def bucket_object_def
        answer_error_def gcs_after_def gcs_read_def split: sum.split option.split)

theorem no_cleanup_after_failed_query_witness:
  "list_ex (\<lambda>ev. is_query ev \<and> event_error ev \<noteq> None)
     (trace (snd (run_all env_query_fails))) \<and>
   filter is_delete (trace (snd (run_all env_query_fails))) = [] \<and>
   gcs_read (gcs_after Map.empty (trace (snd (run_all env_query_fails))))
     ''yelsayed-project1-station_data'' ''station_data.csv'' = Some sample_csv \<and>
   deletes_follow_query False (trace (snd (run_all env_ok))) \<and>
   filter is_delete (trace (snd (run_all env_ok))) =
     [EObjectDelete ''yelsayed-project1-station_data'' ''station_data.csv'' (Inr ()),
      EBucketDelete ''yelsayed-project1-station_data'' (Inr ())]"
proof -
  have query_failed: "\<exists>ev \<in> set (trace (snd (run_all env_query_fails))).
      is_query ev \<and> event_error ev \<noteq> None"
    by (simp add: run_env_query_fails answer_error_def)
  have pid: "project_id env_query_fails = ''yelsayed-project1''"
    by (simp add: env_query_fails_def env_ok_def)
  from no_cleanup_after_failed_query [where env = env_query_fails and st = Map.empty]
    query_failed
  have none: "\<forall>ev \<in> set (trace (snd (run_all env_query_fails))). \<not> is_delete ev"
    and same: "gcs_read (gcs_after Map.empty (trace (snd (run_all env_query_fails))))
        (project_id env_query_fails @ ''-station_data'') ''station_data.csv'' =
        v_data (snd (run_all env_query_fails))"
    by (simp_all add: case_prod_beta)
  from no_cleanup_after_failed_query [where env = env_ok and st = Map.empty]
  have ordered: "deletes_follow_query False (trace (snd (run_all env_ok)))"
    by (simp add: case_prod_beta)
  have dels: "filter is_delete (trace (snd (run_all env_ok))) =
     [EObjectDelete ''yelsayed-project1-station_data'' ''station_data.csv'' (Inr ()),
      EBucketDelete ''yelsayed-project1-station_data'' (Inr ())]"
    by (simp add: run_env_ok)
  from none have "filter is_delete (trace (snd (run_all env_query_fails))) = []"
    by (simp add: filter_empty_conv)
  moreover from query_failed have "list_ex (\<lambda>ev. is_query ev \<and> event_error ev \<noteq> None)
      (trace (snd (run_all env_query_fails)))"
    by (simp add: list_ex_iff)
  moreover from same pid
  have "gcs_read (gcs_after Map.empty (trace (snd (run_all env_query_fails))))
     ''yelsayed-project1-station_data'' ''station_data.csv'' = Some sample_csv"
    by (simp add: run_env_query_fails(3))
  ultimately show ?thesis
    using ordered dels by simp
qed

subsection \<open>The query and its binding\<close>

text \<open>
  C10. Alias binding. Every query a run of the notebook submits has the text
  \<open>SELECT * FROM drivedatasource LIMIT 5\<close>, which names the one table \<open>drivedatasource\<close>;
  its \<open>data_sources\<close> has exactly the key \<open>drivedatasource\<close>, so every table the text names
  is bound; the value bound is the data source held in \<open>drivedata\<close>, declared with the
  notebook's options, schema and \<open>max_bad_records = 10\<close>; its source is the URI of the
  object \<open>station_data.csv\<close> in the bucket \<open><project>-station_data\<close>; and a write that
  returned has put an object at that URI before the query step began.
\<close>

theorem query_alias_bound_to_stored_object:
  "case run_all env of (r, k) \<Rightarrow>
     (\<forall>q a. EExecute q a \<in> set (trace k) \<longrightarrow>
        sql q = ''SELECT * FROM drivedatasource LIMIT 5'' \<and>
        sql_tables (sql q) = [''drivedatasource''] \<and>
        map fst (data_sources q) = [''drivedatasource''] \<and>
        set (sql_tables (sql q)) \<subseteq> dom (map_of (data_sources q)) \<and>
        data_sources q =
          [(''drivedatasource'',
            ExternalDataSource
              (uri \<lparr>obj_bucket = project_id env @ ''-station_data'',
                     obj_key = ''station_data.csv''\<rparr>)
              options schema 10)] \<and>
        map (Some \<circ> snd) (data_sources q) = [v_drivedata k] \<and>
        list_all (\<lambda>(alias, d).
            list_ex (wrote (eds_source d)) (takeWhile (\<lambda>ev. \<not> is_query ev) (trace k)))
          (data_sources q))"
  by (simp add: cells prims try_import_urlopen Let_def Bucket_def bucket_object_def Query_def
        query_text_def sql_tables_def ExternalDataSource_def uri_def split: sum.split)

theorem query_alias_bound_to_stored_object_witness:
  "EExecute (Query query_text [(''drivedatasource'',
         ExternalDataSource ''gs://yelsayed-project1-station_data/station_data.csv''
           options schema 10)])
      (Inr ''job_K_B1UXklE05N5hkcN2SINo33tBg'') \<in> set (trace (snd (run_all env_ok))) \<and>
   sql_tables (sql (Query query_text [(''drivedatasource'',
         ExternalDataSource ''gs://yelsayed-project1-station_data/station_data.csv''
           options schema 10)])) = [''drivedatasource''] \<and>
   list_ex (wrote ''gs://yelsayed-project1-station_data/station_data.csv'')
     (takeWhile (\<lambda>ev. \<not> is_query ev) (trace (snd (run_all env_ok))))"
proof -
  let ?q = "Query query_text [(''drivedatasource'',
         ExternalDataSource ''gs://yelsayed-project1-station_data/station_data.csv''
           options schema 10)]"
  have sent: "EExecute ?q (Inr ''job_K_B1UXklE05N5hkcN2SINo33tBg'')
      \<in> set (trace (snd (run_all env_ok)))"
    by (simp add: run_env_ok)
  from query_alias_bound_to_stored_object [of env_ok] sent
  have "sql_tables (sql ?q) = [''drivedatasource''] \<and>
      list_all (\<lambda>(alias, d).
            list_ex (wrote (eds_source d))
              (takeWhile (\<lambda>ev. \<not> is_query ev) (trace (snd (run_all env_ok)))))
          (data_sources ?q)"
    unfolding case_prod_beta by blast
  then show ?thesis
    using sent by (simp add: Query_def ExternalDataSource_def)
qed

end
